theory Spec2Isabelle
  imports Main "HOL-Library.Word"
begin

section \<open>The vJoy binding layer (vjoy/vjoy\_interface.py)\<close>

text \<open>
  A shallow embedding of the module \<^verbatim>\<open>vjoy_interface.py\<close>: its two enumerations, the
  decoder \<^verbatim>\<open>FFBPType.from_ctype\<close>, the ctypes structure \<^verbatim>\<open>_FFB_DATA\<close>, and the class
  \<^verbatim>\<open>VJoyInterface\<close> with its class body (library discovery), its table of native
  entry points, \<^verbatim>\<open>initialize\<close> and \<^verbatim>\<open>set_ffb_event_callback\<close>.
\<close>

subsection \<open>Python values and exceptions\<close>

text \<open>
  The Python objects that appear as enum values and as results of native calls.
  A tuple and an integer are different objects: \<^verbatim>\<open>(1,) == 1\<close> is \<^verbatim>\<open>False\<close>.
\<close>

datatype pyval =
    PyInt int
  | PyBool bool
  | PyNone
  | PyTuple "pyval list"

text \<open>
  Exceptions as values. \<open>GremlinError\<close> carries its message; \<open>AttributeError\<close> carries
  the name of the attribute (native symbol) that could not be resolved; \<open>OSError\<close>
  carries the path of a library that could not be loaded.
\<close>

datatype error =
    GremlinError string
  | AttributeError string
  | OSError string

subsection \<open>Decimal formatting: \<^verbatim>\<open>"{:d}".format(value)\<close>\<close>

definition digit_char :: "nat \<Rightarrow> char" where
  "digit_char d = char_of (48 + d)"

fun str_nat :: "nat \<Rightarrow> string" where
  "str_nat n = (if n < 10 then [digit_char n]
                else str_nat (n div 10) @ [digit_char (n mod 10)])"

declare str_nat.simps [simp del]

text \<open>Python renders a negative integer with a leading minus sign.\<close>

definition format_d :: "int \<Rightarrow> string" where
  "format_d v = (if v < 0 then CHR ''-'' # str_nat (nat (- v)) else str_nat (nat v))"

text \<open>Reading a decimal numeral back; used to state that a message names a value.\<close>

definition digit_val :: "char \<Rightarrow> nat" where
  "digit_val c = of_char c - 48"

definition val_str :: "string \<Rightarrow> nat" where
  "val_str s = foldl (\<lambda>a c. 10 * a + digit_val c) 0 s"

definition parse_d :: "string \<Rightarrow> int" where
  "parse_d s = (case s of
                  [] \<Rightarrow> 0
                | c # r \<Rightarrow> if c = CHR ''-'' then - int (val_str r) else int (val_str s))"

subsection \<open>\<^verbatim>\<open>class VJoyState(enum.Enum)\<close>\<close>

datatype VJoyState = Owned | Free | Bust | Missing | Unknown

fun VJoyState_value :: "VJoyState \<Rightarrow> pyval" where
  "VJoyState_value Owned = PyInt 0"
| "VJoyState_value Free = PyInt 1"
| "VJoyState_value Bust = PyInt 2"
| "VJoyState_value Missing = PyInt 3"
| "VJoyState_value Unknown = PyInt 4"

subsection \<open>\<^verbatim>\<open>class FFBPType(enum.Enum)\<close>\<close>

datatype FFBPType =
    PT_EFFREP | PT_ENVREP | PT_CONDREP | PT_PRIDREP | PT_CONSTREP | PT_RAMPREP
  | PT_CSTMREP | PT_SMPLREP | PT_EFOPREP | PT_BLKFRREP | PT_CTRLREP | PT_GAINREP
  | PT_SETCREP | PT_NEWEFREP | PT_BLKLDREP | PT_POOLREP

text \<open>
  Every member is declared with a trailing comma (\<^verbatim>\<open>PT_EFFREP = 0x01,\<close>), so the
  expression on the right-hand side is a one-element tuple and that tuple is the
  member's \<^verbatim>\<open>.value\<close>.
\<close>

fun FFBPType_value :: "FFBPType \<Rightarrow> pyval" where
  "FFBPType_value PT_EFFREP = PyTuple [PyInt 0x01]"
| "FFBPType_value PT_ENVREP = PyTuple [PyInt 0x02]"
| "FFBPType_value PT_CONDREP = PyTuple [PyInt 0x03]"
| "FFBPType_value PT_PRIDREP = PyTuple [PyInt 0x04]"
| "FFBPType_value PT_CONSTREP = PyTuple [PyInt 0x05]"
| "FFBPType_value PT_RAMPREP = PyTuple [PyInt 0x06]"
| "FFBPType_value PT_CSTMREP = PyTuple [PyInt 0x07]"
| "FFBPType_value PT_SMPLREP = PyTuple [PyInt 0x08]"
| "FFBPType_value PT_EFOPREP = PyTuple [PyInt 0x0A]"
| "FFBPType_value PT_BLKFRREP = PyTuple [PyInt 0x0B]"
| "FFBPType_value PT_CTRLREP = PyTuple [PyInt 0x0C]"
| "FFBPType_value PT_GAINREP = PyTuple [PyInt 0x0D]"
| "FFBPType_value PT_SETCREP = PyTuple [PyInt 0x0E]"
| "FFBPType_value PT_NEWEFREP = PyTuple [PyInt (0x01 + 0x10)]"
| "FFBPType_value PT_BLKLDREP = PyTuple [PyInt (0x02 + 0x10)]"
| "FFBPType_value PT_POOLREP = PyTuple [PyInt (0x03 + 0x10)]"

definition FFBPType_members :: "FFBPType list" where
  "FFBPType_members =
     [PT_EFFREP, PT_ENVREP, PT_CONDREP, PT_PRIDREP, PT_CONSTREP, PT_RAMPREP,
      PT_CSTMREP, PT_SMPLREP, PT_EFOPREP, PT_BLKFRREP, PT_CTRLREP, PT_GAINREP,
      PT_SETCREP, PT_NEWEFREP, PT_BLKLDREP, PT_POOLREP]"

text \<open>
  The closed set of packet-type codes: the integers written in the sixteen member
  declarations. Thirteen lie in the write range \<open>0x01..0x0E\<close> (which has no member
  for \<open>0x09\<close>), three in the feature range \<open>0x11..0x13\<close>.
\<close>

definition ffb_codes :: "int list" where
  "ffb_codes = [0x01, 0x02, 0x03, 0x04, 0x05, 0x06, 0x07, 0x08,
                0x0A, 0x0B, 0x0C, 0x0D, 0x0E,
                0x01 + 0x10, 0x02 + 0x10, 0x03 + 0x10]"

text \<open>The message \<^verbatim>\<open>"Invalid ffb type value {:d}".format(value)\<close>.\<close>

definition invalid_ffb_message :: "int \<Rightarrow> string" where
  "invalid_ffb_message v = ''Invalid ffb type value '' @ format_d v"

text \<open>\<^verbatim>\<open>FFBPType.from_ctype(value)\<close>, for an integer \<^verbatim>\<open>value\<close>.\<close>

definition from_ctype :: "int \<Rightarrow> error + FFBPType" where
  "from_ctype v =
     (if v = 0x01 then Inr PT_EFFREP
      else if v = 0x02 then Inr PT_ENVREP
      else if v = 0x03 then Inr PT_CONDREP
      else if v = 0x04 then Inr PT_PRIDREP
      else if v = 0x05 then Inr PT_CONSTREP
      else if v = 0x06 then Inr PT_RAMPREP
      else if v = 0x07 then Inr PT_CSTMREP
      else if v = 0x08 then Inr PT_SMPLREP
      else if v = 0x0A then Inr PT_EFOPREP
      else if v = 0x0B then Inr PT_BLKFRREP
      else if v = 0x0C then Inr PT_CTRLREP
      else if v = 0x0D then Inr PT_GAINREP
      else if v = 0x0E then Inr PT_SETCREP
      else if v = 0x01 + 0x10 then Inr PT_NEWEFREP
      else if v = 0x02 + 0x10 then Inr PT_BLKLDREP
      else if v = 0x03 + 0x10 then Inr PT_POOLREP
      else Inl (GremlinError (invalid_ffb_message v)))"

text \<open>The text of the error raised for a value, read back as a number.\<close>

definition named_value :: "error \<Rightarrow> int option" where
  "named_value e = (case e of
       GremlinError msg \<Rightarrow>
         if take 23 msg = ''Invalid ffb type value '' then Some (parse_d (drop 23 msg))
         else None
     | _ \<Rightarrow> None)"

subsection \<open>Device state from a raw status code\<close>

text \<open>
  Modelled from the spec: the conversion of the raw status code returned by the status
  query (\<^verbatim>\<open>GetVJDStatus\<close>) into a \<open>VJoyState\<close>. The module declares the enumeration
  only; the converting function is not part of it. The spec's words: codes 0, 1, 2, 3
  are Owned, Free, Bust, Missing, any other value is Unknown, and the conversion
  never fails.
\<close>

definition device_state_from_code :: "int \<Rightarrow> error + VJoyState" where
  "device_state_from_code c =
     (if c = 0 then Inr Owned
      else if c = 1 then Inr Free
      else if c = 2 then Inr Bust
      else if c = 3 then Inr Missing
      else Inr Unknown)"

subsection \<open>ctypes types and \<^verbatim>\<open>class _FFB_DATA(ctypes.Structure)\<close>\<close>

text \<open>
  The ctypes type objects the module names. \<open>C_FFB_CALLBACK\<close> is the module's
  \<^verbatim>\<open>ctypes.CFUNCTYPE(None, ctypes.c_void_p, ctypes.c_void_p)\<close>.
\<close>

datatype ctype =
    c_short | c_bool | c_wchar_p | c_uint | c_int | c_void_p | c_long | c_ubyte
  | c_ulong | c_uint32 | c_char_p | C_FFB_CALLBACK

text \<open>The \<^verbatim>\<open>_fields_\<close> list of \<^verbatim>\<open>_FFB_DATA\<close>, in declaration order.\<close>

definition FFB_DATA_fields :: "(string \<times> ctype) list" where
  "FFB_DATA_fields = [(''size'', c_ulong), (''cmd'', c_ulong), (''data'', c_char_p)]"

text \<open>The C types, and the C type each ctypes type stands for (the ctypes type table).\<close>

datatype native_type =
    N_short | N_bool | N_wchar_ptr | N_unsigned_int | N_int | N_void_ptr | N_long
  | N_unsigned_char | N_unsigned_long | N_char_ptr | N_function_ptr

fun ctype_native :: "ctype \<Rightarrow> native_type" where
  "ctype_native c_short = N_short"
| "ctype_native c_bool = N_bool"
| "ctype_native c_wchar_p = N_wchar_ptr"
| "ctype_native c_uint = N_unsigned_int"
| "ctype_native c_int = N_int"
| "ctype_native c_void_p = N_void_ptr"
| "ctype_native c_long = N_long"
| "ctype_native c_ubyte = N_unsigned_char"
| "ctype_native c_ulong = N_unsigned_long"
| "ctype_native c_uint32 = N_unsigned_int"
| "ctype_native c_char_p = N_char_ptr"
| "ctype_native C_FFB_CALLBACK = N_function_ptr"

fun is_pointer :: "native_type \<Rightarrow> bool" where
  "is_pointer N_wchar_ptr = True"
| "is_pointer N_void_ptr = True"
| "is_pointer N_char_ptr = True"
| "is_pointer N_function_ptr = True"
| "is_pointer _ = False"

text \<open>
  The widths that depend on the platform: the bytes of a C \<open>long\<close> and of a pointer
  (4 and 8 on 64-bit Windows, 4 and 4 on 32-bit Windows).
\<close>

record data_model =
  long_bytes :: nat
  pointer_bytes :: nat

fun native_size :: "data_model \<Rightarrow> native_type \<Rightarrow> nat" where
  "native_size dm N_short = 2"
| "native_size dm N_bool = 1"
| "native_size dm N_unsigned_int = 4"
| "native_size dm N_int = 4"
| "native_size dm N_unsigned_char = 1"
| "native_size dm N_long = long_bytes dm"
| "native_size dm N_unsigned_long = long_bytes dm"
| "native_size dm N_wchar_ptr = pointer_bytes dm"
| "native_size dm N_void_ptr = pointer_bytes dm"
| "native_size dm N_char_ptr = pointer_bytes dm"
| "native_size dm N_function_ptr = pointer_bytes dm"

text \<open>
  Modelled from the spec: the native definition of the FFB data envelope, which is
  declared in the native library's header and not in this module. The spec's words: a
  fixed-layout record \<open>{size: unsigned long, command: unsigned long, payload: raw byte
  pointer}\<close>.
\<close>

definition native_FFB_DATA :: "(string \<times> native_type) list" where
  "native_FFB_DATA =
     [(''size'', N_unsigned_long), (''command'', N_unsigned_long), (''payload'', N_char_ptr)]"

subsection \<open>Results of native calls\<close>

text \<open>
  What ctypes hands to Python for the 32-bit integer a native function returns, by the
  declared result type: \<^verbatim>\<open>c_int\<close> gives the signed value as a Python \<^verbatim>\<open>int\<close>,
  \<^verbatim>\<open>c_uint\<close> the unsigned one, \<^verbatim>\<open>c_bool\<close> reads one byte and gives a \<^verbatim>\<open>bool\<close>.
  The result types that are not integers of at most 32 bits on every platform
  (pointers, \<^verbatim>\<open>c_long\<close>, \<^verbatim>\<open>c_ulong\<close>) are outside this function: \<open>None\<close>.
\<close>

fun int_restype_result :: "ctype \<Rightarrow> 32 word \<Rightarrow> pyval option" where
  "int_restype_result c_int r = Some (PyInt (sint r))"
| "int_restype_result c_uint r = Some (PyInt (uint r))"
| "int_restype_result c_uint32 r = Some (PyInt (uint r))"
| "int_restype_result c_short r = Some (PyInt (sint (ucast r :: 16 word)))"
| "int_restype_result c_ubyte r = Some (PyInt (uint (ucast r :: 8 word)))"
| "int_restype_result c_bool r = Some (PyBool ((ucast r :: 8 word) \<noteq> 0))"
| "int_restype_result _ r = None"

text \<open>Python's truth value of an object (\<^verbatim>\<open>bool(x)\<close>, \<^verbatim>\<open>if x:\<close>).\<close>

fun py_truth :: "pyval \<Rightarrow> bool" where
  "py_truth (PyInt n) = (n \<noteq> 0)"
| "py_truth (PyBool b) = b"
| "py_truth PyNone = False"
| "py_truth (PyTuple xs) = (xs \<noteq> [])"

subsection \<open>\<^verbatim>\<open>VJoyInterface.api_functions\<close>\<close>

text \<open>
  One entry of the table: a dict that may hold the keys \<^verbatim>\<open>"arguments"\<close> and
  \<^verbatim>\<open>"returns"\<close>. A key that is absent is \<open>None\<close>; the value of \<^verbatim>\<open>"returns"\<close> is a
  ctypes type or Python's \<^verbatim>\<open>None\<close> (no result), so it is an option of its own.
\<close>

record api_params =
  arguments :: "ctype list option"
  returns :: "ctype option option"

definition api :: "ctype list \<Rightarrow> ctype option \<Rightarrow> api_params" where
  "api args ret = \<lparr>arguments = Some args, returns = Some ret\<rparr>"

text \<open>The table, in the order of the dict literal (the order \<^verbatim>\<open>items()\<close> yields).\<close>

definition api_functions :: "(string \<times> api_params) list" where
  "api_functions =
    [(''GetvJoyVersion'', api [] (Some c_short)),
     (''vJoyEnabled'', api [] (Some c_bool)),
     (''GetvJoyProductString'', api [] (Some c_wchar_p)),
     (''GetvJoyManufacturerString'', api [] (Some c_wchar_p)),
     (''GetvJoySerialNumberString'', api [] (Some c_wchar_p)),
     (''GetVJDButtonNumber'', api [c_uint] (Some c_int)),
     (''GetVJDDiscPovNumber'', api [c_uint] (Some c_int)),
     (''GetVJDContPovNumber'', api [c_uint] (Some c_int)),
     (''GetVJDAxisExist'', api [c_uint, c_uint] (Some c_int)),
     (''GetVJDAxisMax'', api [c_uint, c_uint, c_void_p] (Some c_bool)),
     (''GetVJDAxisMin'', api [c_uint, c_uint, c_void_p] (Some c_bool)),
     (''GetOwnerPid'', api [c_uint] (Some c_int)),
     (''AcquireVJD'', api [c_uint] (Some c_bool)),
     (''RelinquishVJD'', api [c_uint] None),
     (''UpdateVJD'', api [c_uint, c_void_p] (Some c_bool)),
     (''GetVJDStatus'', api [c_uint] (Some c_int)),
     (''ResetVJD'', api [c_uint] (Some c_bool)),
     (''ResetAll'', api [] None),
     (''ResetButtons'', api [c_uint] (Some c_bool)),
     (''ResetPovs'', api [c_uint] (Some c_bool)),
     (''SetAxis'', api [c_long, c_uint, c_uint] (Some c_bool)),
     (''SetBtn'', api [c_bool, c_uint, c_ubyte] (Some c_bool)),
     (''SetDiscPov'', api [c_int, c_uint, c_ubyte] (Some c_bool)),
     (''SetContPov'', api [c_ulong, c_uint, c_ubyte] (Some c_bool)),
     (''FfbStart'', api [c_uint] (Some c_bool)),
     (''FfbStop'', api [c_uint] (Some c_bool)),
     (''IsDeviceFfb'', api [c_uint] (Some c_bool)),
     (''FfbRegisterGenCB'', api [C_FFB_CALLBACK, c_void_p] None),
     (''Ffb_h_Type'', api [c_void_p, c_void_p] (Some c_uint32))]"

subsection \<open>The class \<^verbatim>\<open>VJoyInterface\<close>\<close>

text \<open>
  A foreign function object of the loaded library: its symbol, and the \<^verbatim>\<open>argtypes\<close>
  and \<^verbatim>\<open>restype\<close> attributes. ctypes creates it with no \<^verbatim>\<open>argtypes\<close> and with
  \<^verbatim>\<open>restype\<close> \<^verbatim>\<open>c_int\<close>; a \<^verbatim>\<open>restype\<close> of \<open>None\<close> is Python's \<^verbatim>\<open>None\<close>.
\<close>

record dll_fn =
  fn_name :: string
  argtypes :: "ctype list option"
  restype :: "ctype option"

text \<open>
  ctypes objects handed to the native library: the callback trampoline
  \<^verbatim>\<open>C_FFB_CALLBACK(callback)\<close>, an instance \<^verbatim>\<open>c_uint(n)\<close> (which keeps \<open>n\<close> modulo
  \<open>2^32\<close>), the reference \<^verbatim>\<open>byref(obj)\<close> (the address of \<open>obj\<close>), and \<^verbatim>\<open>None\<close>.
\<close>

datatype 'cb cobj =
    CNone
  | CFuncPtr 'cb
  | C_uint "32 word"
  | ByRef "'cb cobj"

text \<open>\<^verbatim>\<open>ctypes.c_uint(n)\<close> for a Python integer \<open>n\<close>: no overflow check, the value wraps.\<close>

definition c_uint_obj :: "int \<Rightarrow> 'cb cobj" where
  "c_uint_obj n = C_uint (word_of_int n)"

text \<open>
  The class object. \<open>vjoy_dll\<close> is the loaded library, given by the set of symbols
  it exports; \<open>ffb_callback_fn\<close> is the class attribute of that name; \<open>bound\<close> holds
  the attributes \<^verbatim>\<open>initialize\<close> sets with \<^verbatim>\<open>setattr(cls, fn_name, dll_fn)\<close>. Two logs
  record what reaches the library: the symbols resolved with \<^verbatim>\<open>getattr\<close>, and the
  native calls made, each with its arguments.
\<close>

record 'cb VJoyInterface =
  dll_path :: string
  vjoy_dll :: "string set"
  ffb_callback_fn :: "'cb cobj"
  bound :: "string \<rightharpoonup> dll_fn"
  symbol_lookups :: "string list"
  native_calls :: "(string \<times> 'cb cobj list) list"

subsubsection \<open>The class body: locating and loading the library\<close>

text \<open>
  The operating system as the class body sees it: \<^verbatim>\<open>__file__\<close>, the functions
  \<^verbatim>\<open>os.path.dirname\<close>, \<^verbatim>\<open>os.path.join\<close> and \<^verbatim>\<open>os.path.isfile\<close>, and
  \<^verbatim>\<open>ctypes.cdll.LoadLibrary\<close>, which gives the library (its exported symbols) or
  raises. A relative path such as \<^verbatim>\<open>"vJoyInterface.dll"\<close> is resolved by
  \<^verbatim>\<open>os.path.isfile\<close> against the current working directory of the process.
\<close>

record os_env =
  module_file :: string
  os_path_dirname :: "string \<Rightarrow> string"
  os_path_join :: "string \<Rightarrow> string \<Rightarrow> string"
  os_path_isfile :: "string \<Rightarrow> bool"
  load_library :: "string \<Rightarrow> error + string set"

datatype os_event = IsFile string | LoadLibrary string

definition dev_path :: "os_env \<Rightarrow> string" where
  "dev_path env = os_path_join env (os_path_dirname env (module_file env)) ''vJoyInterface.dll''"

text \<open>
  The \<^verbatim>\<open>if\<close>/\<^verbatim>\<open>elif\<close>/\<^verbatim>\<open>else\<close> that sets \<^verbatim>\<open>dll_path\<close>, with the file-system probes
  it makes, in order. The \<^verbatim>\<open>elif\<close> is evaluated only when the first test fails.
\<close>

definition locate_dll :: "os_env \<Rightarrow> os_event list \<times> (error + string)" where
  "locate_dll env =
     (if os_path_isfile env ''vJoyInterface.dll''
      then ([IsFile ''vJoyInterface.dll''], Inr ''vJoyInterface.dll'')
      else if os_path_isfile env (dev_path env)
      then ([IsFile ''vJoyInterface.dll'', IsFile (dev_path env)], Inr (dev_path env))
      else ([IsFile ''vJoyInterface.dll'', IsFile (dev_path env)],
            Inl (GremlinError ''Unable to locate vjoy dll'')))"

definition class_body :: "os_env \<Rightarrow> os_event list \<times> (error + 'cb VJoyInterface)" where
  "class_body env =
     (case locate_dll env of
        (tr, Inl e) \<Rightarrow> (tr, Inl e)
      | (tr, Inr path) \<Rightarrow>
          (tr @ [LoadLibrary path],
           case load_library env path of
             Inl e \<Rightarrow> Inl e
           | Inr exports \<Rightarrow>
               Inr \<lparr>dll_path = path, vjoy_dll = exports, ffb_callback_fn = CNone,
                    bound = Map.empty, symbol_lookups = [], native_calls = []\<rparr>))"

subsubsection \<open>\<^verbatim>\<open>VJoyInterface.initialize\<close>\<close>

text \<open>
  \<^verbatim>\<open>getattr(cls.vjoy_dll, fn_name)\<close>: the library resolves the symbol, and raises
  \<^verbatim>\<open>AttributeError\<close> when it does not export it.
\<close>

definition new_dll_fn :: "string \<Rightarrow> dll_fn" where
  "new_dll_fn name = \<lparr>fn_name = name, argtypes = None, restype = Some c_int\<rparr>"

definition dll_getattr :: "string set \<Rightarrow> string \<Rightarrow> error + dll_fn" where
  "dll_getattr exports name =
     (if name \<in> exports then Inr (new_dll_fn name) else Inl (AttributeError name))"

definition set_types :: "api_params \<Rightarrow> dll_fn \<Rightarrow> dll_fn" where
  "set_types params f =
     (let f1 = (case arguments params of Some a \<Rightarrow> f\<lparr>argtypes := Some a\<rparr> | None \<Rightarrow> f)
      in (case returns params of Some r \<Rightarrow> f1\<lparr>restype := r\<rparr> | None \<Rightarrow> f1))"

text \<open>
  The loop over \<^verbatim>\<open>api_functions.items()\<close>. An exception leaves the loop at once; what
  was set before stays set, so the class is returned next to the error.
\<close>

fun bind_all :: "(string \<times> api_params) list \<Rightarrow> 'cb VJoyInterface
                  \<Rightarrow> 'cb VJoyInterface \<times> error option" where
  "bind_all [] cls = (cls, None)"
| "bind_all ((name, params) # rest) cls =
     (let cls1 = cls\<lparr>symbol_lookups := symbol_lookups cls @ [name]\<rparr>
      in case dll_getattr (vjoy_dll cls1) name of
           Inl e \<Rightarrow> (cls1, Some e)
         | Inr f \<Rightarrow>
             bind_all rest (cls1\<lparr>bound := (bound cls1)(name \<mapsto> set_types params f)\<rparr>))"

definition initialize :: "'cb VJoyInterface \<Rightarrow> 'cb VJoyInterface \<times> error option" where
  "initialize cls = bind_all api_functions cls"

text \<open>
  Importing the module: the class body, then \<^verbatim>\<open>VJoyInterface.initialize()\<close> on the
  last line. The import fails with the first exception raised.
\<close>

definition import_module :: "os_env \<Rightarrow> os_event list \<times> (error + 'cb VJoyInterface)" where
  "import_module env =
     (case class_body env of
        (tr, Inl e) \<Rightarrow> (tr, Inl e)
      | (tr, Inr cls) \<Rightarrow>
          (case initialize cls of
             (cls1, Some e) \<Rightarrow> (tr, Inl e)
           | (cls1, None) \<Rightarrow> (tr, Inr cls1)))"

subsubsection \<open>\<^verbatim>\<open>VJoyInterface.set_ffb_event_callback\<close>\<close>

text \<open>
  The first statement stores the new trampoline in the class attribute; the second
  resolves \<^verbatim>\<open>FfbRegisterGenCB\<close> on the library and calls it with the attribute's
  value and \<^verbatim>\<open>byref(c_uint(vjoy_id))\<close>. The native function has no result.
\<close>

definition set_ffb_event_callback ::
    "'cb \<Rightarrow> int \<Rightarrow> 'cb VJoyInterface \<Rightarrow> 'cb VJoyInterface \<times> error option" where
  "set_ffb_event_callback callback vjoy_id cls =
     (let cls1 = cls\<lparr>ffb_callback_fn := CFuncPtr callback\<rparr>
      in case dll_getattr (vjoy_dll cls1) ''FfbRegisterGenCB'' of
           Inl e \<Rightarrow> (cls1, Some e)
         | Inr f \<Rightarrow>
             (cls1\<lparr>native_calls := native_calls cls1 @
                     [(fn_name f, [ffb_callback_fn cls1, ByRef (c_uint_obj vjoy_id)])]\<rparr>,
              None))"

text \<open>A sequence of registrations, one after the other, whatever each one raises.\<close>

fun register_all :: "('cb \<times> int) list \<Rightarrow> 'cb VJoyInterface \<Rightarrow> 'cb VJoyInterface" where
  "register_all [] cls = cls"
| "register_all ((callback, vjoy_id) # rest) cls =
     register_all rest (fst (set_ffb_event_callback callback vjoy_id cls))"

subsection \<open>Example environments\<close>

text \<open>
  Three file systems for a module installed as \<^verbatim>\<open>C:/gremlin/vjoy/vjoy_interface.py\<close>:
  the library exists in the working directory and beside the module, only beside the
  module, and nowhere.
\<close>

definition env_both :: os_env where
  "env_both = \<lparr>module_file = ''C:/gremlin/vjoy/vjoy_interface.py'',
               os_path_dirname = (\<lambda>p. take 15 p),
               os_path_join = (\<lambda>a b. a @ ''/'' @ b),
               os_path_isfile = (\<lambda>p. p = ''vJoyInterface.dll''
                                    \<or> p = ''C:/gremlin/vjoy/vJoyInterface.dll''),
               load_library = (\<lambda>p. Inr (set (map fst api_functions)))\<rparr>"

definition env_dev_only :: os_env where
  "env_dev_only = env_both\<lparr>os_path_isfile := (\<lambda>p. p = ''C:/gremlin/vjoy/vJoyInterface.dll'')\<rparr>"

definition env_neither :: os_env where
  "env_neither = env_both\<lparr>os_path_isfile := (\<lambda>p. False)\<rparr>"

subsection \<open>Calling a bound function\<close>

text \<open>
  A call \<^verbatim>\<open>f(*args)\<close> of a bound function whose declared parameters are all
  \<^verbatim>\<open>c_uint\<close>, with Python integers as arguments: each argument is passed as
  \<^verbatim>\<open>c_uint(a)\<close>, the native function (given by \<open>native\<close>, from the symbol and the
  arguments to the 32-bit integer it returns) runs, and ctypes converts its result by
  the function's \<^verbatim>\<open>restype\<close>. Calls of other shapes are outside this function.
\<close>

definition call_native ::
    "(string \<Rightarrow> 32 word list \<Rightarrow> 32 word) \<Rightarrow> dll_fn \<Rightarrow> int list \<Rightarrow> pyval option" where
  "call_native native f args =
     (if argtypes f = Some (replicate (length args) c_uint)
      then (case restype f of
              None \<Rightarrow> Some PyNone
            | Some t \<Rightarrow> int_restype_result t (native (fn_name f) (map word_of_int args)))
      else None)"

subsection \<open>Example classes\<close>

text \<open>
  The class as the class body leaves it, for a library that exports every symbol of
  the table, and for one that lacks \<^verbatim>\<open>GetVJDStatus\<close>. Callbacks are numbered.
\<close>

definition cls_example :: "nat VJoyInterface" where
  "cls_example = \<lparr>dll_path = ''vJoyInterface.dll'', vjoy_dll = set (map fst api_functions),
                  ffb_callback_fn = CNone, bound = Map.empty, symbol_lookups = [],
                  native_calls = []\<rparr>"

definition cls_missing :: "nat VJoyInterface" where
  "cls_missing = cls_example\<lparr>vjoy_dll := set (map fst api_functions) - {''GetVJDStatus''}\<rparr>"

section \<open>Properties\<close>

subsection \<open>Decimal formatting\<close>

lemma of_char_digit_char: "d < 10 \<Longrightarrow> of_char (digit_char d) = 48 + d"
  by (simp add: digit_char_def)

lemma digit_val_digit_char: "d < 10 \<Longrightarrow> digit_val (digit_char d) = d"
  by (simp add: digit_val_def of_char_digit_char)

lemma digit_char_not_minus: "d < 10 \<Longrightarrow> digit_char d \<noteq> CHR ''-''"
proof
  assume d: "d < 10" and eq: "digit_char d = CHR ''-''"
  have "(of_char (digit_char d) :: nat) = of_char (CHR ''-'')"
    using eq by simp
  then show False using d by (simp add: of_char_digit_char)
qed

lemma val_str_snoc: "val_str (s @ [c]) = 10 * val_str s + digit_val c"
  by (simp add: val_str_def)

lemma val_str_nat: "val_str (str_nat n) = n"
proof (induction n rule: str_nat.induct)
  case (1 n)
  show ?case
  proof (cases "n < 10")
    case True
    then show ?thesis
      by (simp add: str_nat.simps [of n] val_str_def digit_val_digit_char)
  next
    case False
    then have "val_str (str_nat n) = 10 * (n div 10) + n mod 10"
      using 1 by (simp add: str_nat.simps [of n] val_str_snoc digit_val_digit_char)
    then show ?thesis by simp
  qed
qed

lemma str_nat_head: "\<exists>c r. str_nat n = c # r \<and> c \<noteq> CHR ''-''"
proof (induction n rule: str_nat.induct)
  case (1 n)
  show ?case
  proof (cases "n < 10")
    case True
    then show ?thesis
      by (simp add: str_nat.simps [of n] digit_char_not_minus)
  next
    case False
    then obtain c r where "str_nat (n div 10) = c # r" "c \<noteq> CHR ''-''"
      using 1 by blast
    then show ?thesis using False
      by (simp add: str_nat.simps [of n])
  qed
qed

lemma parse_format_d: "parse_d (format_d v) = v"
proof (cases "v < 0")
  case True
  then show ?thesis
    by (simp add: parse_d_def format_d_def val_str_nat)
next
  case False
  obtain c r where cr: "str_nat (nat v) = c # r" "c \<noteq> CHR ''-''"
    using str_nat_head by blast
  have "val_str (c # r) = nat v"
    using val_str_nat [of "nat v"] cr by simp
  then show ?thesis using False cr
    by (simp add: parse_d_def format_d_def)
qed

subsection \<open>The packet-type decoder\<close>

lemma from_ctype_member:
  "v \<in> set ffb_codes \<Longrightarrow> \<exists>m. from_ctype v = Inr m \<and> FFBPType_value m = PyTuple [PyInt v]"
  by (auto simp: ffb_codes_def from_ctype_def)

lemma from_ctype_invalid:
  "v \<notin> set ffb_codes \<Longrightarrow>
   from_ctype v = Inl (GremlinError (invalid_ffb_message v))"
  by (simp add: ffb_codes_def from_ctype_def)

lemma named_value_invalid:
  "named_value (GremlinError (invalid_ffb_message v)) = Some v"
  by (simp add: named_value_def invalid_ffb_message_def parse_format_d)

text \<open>
  The decoder restricted to the closed set is one-to-one and reaches every member, and
  the members' values are the tuples of the codes, in declaration order.
\<close>

lemma from_ctype_onto: "\<exists>v \<in> set ffb_codes. from_ctype v = Inr m"
  by (cases m) (simp_all add: ffb_codes_def from_ctype_def)

lemma from_ctype_inj: "from_ctype v = Inr m \<Longrightarrow> from_ctype w = Inr m \<Longrightarrow> v = w"
  by (cases m) (simp_all add: from_ctype_def split: if_splits)

lemma FFBPType_members_values:
  "map FFBPType_value FFBPType_members = map (\<lambda>c. PyTuple [PyInt c]) ffb_codes"
  by (simp add: FFBPType_members_def ffb_codes_def)

text \<open>
  C1. For a code of the closed set, decoding and then taking the member's value
  should give the code back. The decoder succeeds on code \<open>0x01\<close> with the member
  \<open>PT_EFFREP\<close>, but the value of that member is the one-element tuple \<open>(1,)\<close>, which
  is not the integer \<open>1\<close>: the round trip through \<^verbatim>\<open>.value\<close> does not return the code.
\<close>

theorem from_ctype_value_roundtrip_fails:
  "from_ctype 0x01 = Inr PT_EFFREP
   \<and> FFBPType_value PT_EFFREP = PyTuple [PyInt 0x01]
   \<and> FFBPType_value PT_EFFREP \<noteq> PyInt 0x01"
  by (simp add: from_ctype_def)

text \<open>
  C2. For every integer outside the closed set, \<open>from_ctype\<close> raises: the result is
  the error \<open>GremlinError\<close>, no member is returned, and the message is the text
  \<^verbatim>\<open>Invalid ffb type value\<close> followed by the decimal numeral of exactly that integer.
\<close>

theorem from_ctype_outside_raises:
  assumes "v \<notin> set ffb_codes"
  shows "from_ctype v = Inl (GremlinError (invalid_ffb_message v))
         \<and> (\<forall>m. from_ctype v \<noteq> Inr m)
         \<and> (\<exists>e. from_ctype v = Inl e \<and> named_value e = Some v)"
  using assms by (simp add: from_ctype_invalid named_value_invalid)

theorem from_ctype_outside_raises_witness:
  "(9::int) \<notin> set ffb_codes
   \<and> from_ctype 9 = Inl (GremlinError ''Invalid ffb type value 9'')
   \<and> (\<forall>m. from_ctype 9 \<noteq> Inr m)
   \<and> (\<exists>e. from_ctype 9 = Inl e \<and> named_value e = Some 9)"
proof -
  have h: "(9::int) \<notin> set ffb_codes"
    by (simp add: ffb_codes_def)
  have f: "invalid_ffb_message 9 = ''Invalid ffb type value 9''"
    by code_simp
  show ?thesis
    using h from_ctype_outside_raises [OF h] by (auto simp: f)
qed

text \<open>
  C3. Decoding \<open>0x0B\<close> gives \<open>PT_BLKFRREP\<close>, decoding \<open>0x13\<close> gives \<open>PT_POOLREP\<close>, and
  decoding \<open>0x09\<close> fails with an error whose message names the value 9.
\<close>

theorem from_ctype_scenario:
  "from_ctype 0x0B = Inr PT_BLKFRREP
   \<and> from_ctype 0x13 = Inr PT_POOLREP
   \<and> from_ctype 0x09 = Inl (GremlinError ''Invalid ffb type value 9'')
   \<and> named_value (GremlinError ''Invalid ffb type value 9'') = Some 9"
proof -
  have "from_ctype 0x0B = Inr PT_BLKFRREP" "from_ctype 0x13 = Inr PT_POOLREP"
    by (simp_all add: from_ctype_def)
  moreover have "invalid_ffb_message 9 = ''Invalid ffb type value 9''"
    by code_simp
  moreover have "from_ctype 0x09 = Inl (GremlinError (invalid_ffb_message 9))"
    by (simp add: from_ctype_def)
  moreover have "named_value (GremlinError (invalid_ffb_message 9)) = Some 9"
    by (rule named_value_invalid)
  ultimately show ?thesis by simp
qed

text \<open>
  C10. For every code \<open>v\<close> of the closed set, the value of the decoded member is the
  one-element tuple \<open>(v,)\<close> and not the integer \<open>v\<close>; the integer is the tuple's only
  component.
\<close>

theorem from_ctype_value_is_tuple:
  assumes "v \<in> set ffb_codes"
  shows "\<exists>m. from_ctype v = Inr m
             \<and> FFBPType_value m = PyTuple [PyInt v]
             \<and> FFBPType_value m \<noteq> PyInt v"
  using from_ctype_member [OF assms] by auto

theorem from_ctype_value_is_tuple_witness:
  "(0x0B::int) \<in> set ffb_codes
   \<and> (\<exists>m. from_ctype 0x0B = Inr m
          \<and> FFBPType_value m = PyTuple [PyInt 0x0B]
          \<and> FFBPType_value m \<noteq> PyInt 0x0B)"
proof -
  have h: "(0x0B::int) \<in> set ffb_codes"
    by (simp add: ffb_codes_def)
  show ?thesis
    using h from_ctype_value_is_tuple [OF h] by simp
qed

subsection \<open>Device state\<close>

text \<open>
  C4. Converting a raw status code to a device state never fails: 0, 1, 2 and 3 give
  Owned, Free, Bust and Missing, and every other integer gives Unknown. The four
  named codes are the values the enumeration declares for these members.
\<close>

theorem device_state_from_code_total:
  "device_state_from_code 0 = Inr Owned
   \<and> device_state_from_code 1 = Inr Free
   \<and> device_state_from_code 2 = Inr Bust
   \<and> device_state_from_code 3 = Inr Missing
   \<and> (c \<notin> {0, 1, 2, 3} \<longrightarrow> device_state_from_code c = Inr Unknown)
   \<and> (\<exists>s. device_state_from_code c = Inr s)
   \<and> (c \<in> {0, 1, 2, 3} \<longrightarrow>
        (\<exists>s. device_state_from_code c = Inr s \<and> VJoyState_value s = PyInt c))"
  by (auto simp: device_state_from_code_def)

theorem device_state_from_code_total_witness:
  "(99::int) \<notin> {0, 1, 2, 3} \<and> device_state_from_code 99 = Inr Unknown
   \<and> (2::int) \<in> {0, 1, 2, 3} \<and> device_state_from_code 2 = Inr Bust
   \<and> VJoyState_value Bust = PyInt 2"
  using device_state_from_code_total [of 99] device_state_from_code_total [of 2]
  by simp


subsection \<open>The function table and \<open>initialize\<close>\<close>

lemma api_functions_distinct: "distinct (map fst api_functions)"
  by (simp add: api_functions_def)

lemma bind_all_vjoy_dll: "vjoy_dll (fst (bind_all tbl cls)) = vjoy_dll cls"
  by (induction tbl cls rule: bind_all.induct) (simp_all add: dll_getattr_def Let_def)

text \<open>The loop stops at the first name the library does not export.\<close>

lemma bind_all_error:
  "snd (bind_all tbl cls) =
     map_option AttributeError (find (\<lambda>n. n \<notin> vjoy_dll cls) (map fst tbl))"
  by (induction tbl arbitrary: cls) (auto simp: dll_getattr_def)

lemma bind_all_lookups:
  "set (map fst tbl) \<subseteq> vjoy_dll cls \<Longrightarrow>
   symbol_lookups (fst (bind_all tbl cls)) = symbol_lookups cls @ map fst tbl"
  by (induction tbl arbitrary: cls) (auto simp: dll_getattr_def)

lemma bind_all_bound_other:
  "n \<notin> set (map fst tbl) \<Longrightarrow> bound (fst (bind_all tbl cls)) n = bound cls n"
  by (induction tbl arbitrary: cls) (auto simp: dll_getattr_def)

lemma bind_all_bound:
  "set (map fst tbl) \<subseteq> vjoy_dll cls \<Longrightarrow> distinct (map fst tbl) \<Longrightarrow> (n, p) \<in> set tbl \<Longrightarrow>
   bound (fst (bind_all tbl cls)) n = Some (set_types p (new_dll_fn n))"
proof (induction tbl arbitrary: cls)
  case Nil
  then show ?case by simp
next
  case (Cons a tbl)
  obtain m q where a: "a = (m, q)" by (cases a)
  show ?case
  proof (cases "n = m")
    case True
    have "m \<notin> fst ` set tbl"
      using Cons.prems a by simp
    then have "(n, p) \<notin> set tbl"
      using True by force
    then have "p = q"
      using Cons.prems a by simp
    then show ?thesis
      using Cons.prems a True by (simp add: dll_getattr_def bind_all_bound_other)
  next
    case False
    then have "(n, p) \<in> set tbl"
      using Cons.prems a by simp
    then show ?thesis
      using Cons.prems a False Cons.IH by (simp add: dll_getattr_def)
  qed
qed

lemma set_types_api:
  "set_types (api args ret) (new_dll_fn n) = \<lparr>fn_name = n, argtypes = Some args, restype = ret\<rparr>"
  by (simp add: set_types_def api_def new_dll_fn_def)

lemma initialize_bound:
  assumes "set (map fst api_functions) \<subseteq> vjoy_dll cls"
    and "(n, api args ret) \<in> set api_functions"
  shows "bound (fst (initialize cls)) n = Some \<lparr>fn_name = n, argtypes = Some args, restype = ret\<rparr>"
  using bind_all_bound [OF assms(1) api_functions_distinct assms(2)]
  by (simp add: initialize_def set_types_api)

lemma initialize_missing:
  assumes "\<not> set (map fst api_functions) \<subseteq> vjoy_dll cls"
  shows "\<exists>n \<in> set (map fst api_functions).
           n \<notin> vjoy_dll cls \<and> snd (initialize cls) = Some (AttributeError n)"
proof -
  let ?P = "\<lambda>n. n \<notin> vjoy_dll cls"
  have "find ?P (map fst api_functions) \<noteq> None"
    using assms by (auto simp: find_None_iff)
  then obtain n where n: "find ?P (map fst api_functions) = Some n"
    by blast
  then have "n \<in> set (map fst api_functions)" "n \<notin> vjoy_dll cls"
    by (auto simp: find_Some_iff)
  moreover have "snd (initialize cls) = Some (AttributeError n)"
    using n by (simp add: initialize_def bind_all_error)
  ultimately show ?thesis by blast
qed

lemma import_module_initialize_error:
  "(class_body env :: os_event list \<times> (error + 'cb VJoyInterface)) = (tr, Inr cls) \<Longrightarrow>
   snd (initialize cls) = Some e \<Longrightarrow>
   (import_module env :: os_event list \<times> (error + 'cb VJoyInterface)) = (tr, Inl e)"
  by (cases "initialize cls") (simp add: import_module_def)

text \<open>
  C8. When the library exports every symbol of the table, \<open>initialize\<close> raises
  nothing, resolves each declared symbol once, in table order (the names of the table
  are distinct), and leaves each as a class attribute carrying the declared argument
  and result types. When a declared symbol is absent, \<open>initialize\<close> itself raises
  \<open>AttributeError\<close> for the first such symbol, and importing the module, which calls
  \<open>initialize\<close>, fails with that error.
\<close>

theorem initialize_binds_or_fails:
  fixes cls :: "'cb VJoyInterface"
  shows "distinct (map fst api_functions)
   \<and> (set (map fst api_functions) \<subseteq> vjoy_dll cls \<longrightarrow>
        snd (initialize cls) = None
        \<and> symbol_lookups (fst (initialize cls)) = symbol_lookups cls @ map fst api_functions
        \<and> (\<forall>n args ret. (n, api args ret) \<in> set api_functions \<longrightarrow>
              bound (fst (initialize cls)) n =
                Some \<lparr>fn_name = n, argtypes = Some args, restype = ret\<rparr>))
   \<and> (\<forall>n. find (\<lambda>n. n \<notin> vjoy_dll cls) (map fst api_functions) = Some n \<longrightarrow>
          snd (initialize cls) = Some (AttributeError n))
   \<and> (\<not> set (map fst api_functions) \<subseteq> vjoy_dll cls \<longrightarrow>
        (\<exists>n \<in> set (map fst api_functions). n \<notin> vjoy_dll cls
            \<and> snd (initialize cls) = Some (AttributeError n)
            \<and> (\<forall>env tr. class_body env = (tr, Inr cls) \<longrightarrow>
                  (import_module env :: os_event list \<times> (error + 'cb VJoyInterface)) =
                    (tr, Inl (AttributeError n)))))"
proof -
  have ok: "snd (initialize cls) = None
        \<and> symbol_lookups (fst (initialize cls)) = symbol_lookups cls @ map fst api_functions"
    if "set (map fst api_functions) \<subseteq> vjoy_dll cls"
  proof -
    have "find (\<lambda>n. n \<notin> vjoy_dll cls) (map fst api_functions) = None"
      using that by (auto simp: find_None_iff)
    then show ?thesis
      using that by (simp add: initialize_def bind_all_error bind_all_lookups)
  qed
  have first: "\<forall>n. find (\<lambda>n. n \<notin> vjoy_dll cls) (map fst api_functions) = Some n \<longrightarrow>
          snd (initialize cls) = Some (AttributeError n)"
    by (simp add: initialize_def bind_all_error)
  have missing: "\<exists>n \<in> set (map fst api_functions). n \<notin> vjoy_dll cls
            \<and> snd (initialize cls) = Some (AttributeError n)
            \<and> (\<forall>env tr. class_body env = (tr, Inr cls) \<longrightarrow>
                  (import_module env :: os_event list \<times> (error + 'cb VJoyInterface)) =
                    (tr, Inl (AttributeError n)))"
    if lacks: "\<not> set (map fst api_functions) \<subseteq> vjoy_dll cls"
  proof -
    obtain n where n: "n \<in> set (map fst api_functions)" "n \<notin> vjoy_dll cls"
        "snd (initialize cls) = Some (AttributeError n)"
      using initialize_missing [OF lacks] by blast
    have "\<forall>env tr. class_body env = (tr, Inr cls) \<longrightarrow>
                  (import_module env :: os_event list \<times> (error + 'cb VJoyInterface)) =
                    (tr, Inl (AttributeError n))"
      using import_module_initialize_error n(3) by blast
    with n show ?thesis by blast
  qed
  show ?thesis
    using api_functions_distinct ok first missing initialize_bound [of cls] by blast
qed

theorem initialize_binds_or_fails_witness:
  "set (map fst api_functions) \<subseteq> vjoy_dll cls_example
   \<and> snd (initialize cls_example) = None
   \<and> symbol_lookups (fst (initialize cls_example)) = map fst api_functions
   \<and> bound (fst (initialize cls_example)) ''RelinquishVJD'' =
        Some \<lparr>fn_name = ''RelinquishVJD'', argtypes = Some [c_uint], restype = None\<rparr>
   \<and> \<not> set (map fst api_functions) \<subseteq> vjoy_dll cls_missing
   \<and> find (\<lambda>n. n \<notin> vjoy_dll cls_missing) (map fst api_functions) = Some ''GetVJDStatus''
   \<and> snd (initialize cls_missing) = Some (AttributeError ''GetVJDStatus'')"
proof -
  have full: "set (map fst api_functions) \<subseteq> vjoy_dll cls_example"
    by (simp add: cls_example_def)
  have entry: "(''RelinquishVJD'', api [c_uint] None) \<in> set api_functions"
    by (simp add: api_functions_def)
  have first: "find (\<lambda>n. n \<notin> vjoy_dll cls_missing) (map fst api_functions)
               = Some ''GetVJDStatus''"
    by (simp add: cls_missing_def cls_example_def api_functions_def)
  have "''GetVJDStatus'' \<in> set (map fst api_functions)"
    by (simp add: api_functions_def)
  moreover have "''GetVJDStatus'' \<notin> vjoy_dll cls_missing"
    by (simp add: cls_missing_def)
  ultimately have lacks: "\<not> set (map fst api_functions) \<subseteq> vjoy_dll cls_missing"
    by blast
  have start: "symbol_lookups cls_example = []"
    by (simp add: cls_example_def)
  from initialize_binds_or_fails [of cls_example] full entry start
  have a: "snd (initialize cls_example) = None
     \<and> symbol_lookups (fst (initialize cls_example)) = map fst api_functions
     \<and> bound (fst (initialize cls_example)) ''RelinquishVJD'' =
        Some \<lparr>fn_name = ''RelinquishVJD'', argtypes = Some [c_uint], restype = None\<rparr>"
    by simp
  from initialize_binds_or_fails [of cls_missing] first
  have b: "snd (initialize cls_missing) = Some (AttributeError ''GetVJDStatus'')"
    by blast
  show ?thesis
    using full a lacks first b by blast
qed


text \<open>
  C9. The table declares \<^verbatim>\<open>GetVJDAxisExist\<close> with two \<^verbatim>\<open>c_uint\<close> parameters and the
  result type \<^verbatim>\<open>c_int\<close>, not \<^verbatim>\<open>c_bool\<close>. After \<open>initialize\<close> the bound function,
  called with any device id and axis id, returns the integer the native function
  returned, as a Python \<^verbatim>\<open>int\<close> and unchanged; its truth value is "nonzero".
\<close>

theorem GetVJDAxisExist_returns_int:
  fixes cls :: "'cb VJoyInterface"
  shows "map_of api_functions ''GetVJDAxisExist'' = Some (api [c_uint, c_uint] (Some c_int))
   \<and> returns (api [c_uint, c_uint] (Some c_int)) = Some (Some c_int)
   \<and> Some (Some c_int) \<noteq> Some (Some c_bool)
   \<and> (set (map fst api_functions) \<subseteq> vjoy_dll cls \<longrightarrow>
        (\<exists>f. bound (fst (initialize cls)) ''GetVJDAxisExist'' = Some f
           \<and> restype f = Some c_int
           \<and> call_native native f [dev, axis] =
               Some (PyInt (sint (native ''GetVJDAxisExist'' [word_of_int dev, word_of_int axis])))
           \<and> (\<forall>b. call_native native f [dev, axis] \<noteq> Some (PyBool b))
           \<and> (\<forall>v. call_native native f [dev, axis] = Some v \<longrightarrow>
                 py_truth v =
                   (native ''GetVJDAxisExist'' [word_of_int dev, word_of_int axis] \<noteq> 0))))"
proof -
  have entry: "(''GetVJDAxisExist'', api [c_uint, c_uint] (Some c_int)) \<in> set api_functions"
    by (simp add: api_functions_def)
  have m: "map_of api_functions ''GetVJDAxisExist'' = Some (api [c_uint, c_uint] (Some c_int))"
    using map_of_is_SomeI [OF api_functions_distinct entry] .
  have r: "returns (api [c_uint, c_uint] (Some c_int)) = Some (Some c_int)"
    by (simp add: api_def)
  have call: "\<exists>f. bound (fst (initialize cls)) ''GetVJDAxisExist'' = Some f
           \<and> restype f = Some c_int
           \<and> call_native native f [dev, axis] =
               Some (PyInt (sint (native ''GetVJDAxisExist'' [word_of_int dev, word_of_int axis])))
           \<and> (\<forall>b. call_native native f [dev, axis] \<noteq> Some (PyBool b))
           \<and> (\<forall>v. call_native native f [dev, axis] = Some v \<longrightarrow>
                 py_truth v =
                   (native ''GetVJDAxisExist'' [word_of_int dev, word_of_int axis] \<noteq> 0))"
    if full: "set (map fst api_functions) \<subseteq> vjoy_dll cls"
  proof -
    let ?f = "\<lparr>fn_name = ''GetVJDAxisExist'', argtypes = Some [c_uint, c_uint],
               restype = Some c_int\<rparr>"
    have b: "bound (fst (initialize cls)) ''GetVJDAxisExist'' = Some ?f"
      using initialize_bound [OF full entry] .
    have c: "call_native native ?f [dev, axis] =
               Some (PyInt (sint (native ''GetVJDAxisExist'' [word_of_int dev, word_of_int axis])))"
      by (simp add: call_native_def)
    show ?thesis
      using b c by (simp add: signed_eq_0_iff)
  qed
  show ?thesis
    using m r call by blast
qed

theorem GetVJDAxisExist_returns_int_witness:
  "set (map fst api_functions) \<subseteq> vjoy_dll cls_example
   \<and> (\<exists>f. bound (fst (initialize cls_example)) ''GetVJDAxisExist'' = Some f
         \<and> restype f = Some c_int
         \<and> call_native (\<lambda>name args. 2) f [1, 0x30] = Some (PyInt 2)
         \<and> py_truth (PyInt 2))"
proof -
  have full: "set (map fst api_functions) \<subseteq> vjoy_dll cls_example"
    by (simp add: cls_example_def)
  show ?thesis
    using full GetVJDAxisExist_returns_int [of cls_example "\<lambda>name args. 2" 1 "0x30"]
    by auto
qed

subsection \<open>Library discovery\<close>

lemma class_body_not_found:
  "snd (locate_dll env) = Inl e \<Longrightarrow>
   (class_body env :: os_event list \<times> (error + 'cb VJoyInterface)) = (fst (locate_dll env), Inl e)"
  by (cases "locate_dll env") (simp add: class_body_def)

lemma import_module_class_body_error:
  "(class_body env :: os_event list \<times> (error + 'cb VJoyInterface)) = (tr, Inl e) \<Longrightarrow>
   (import_module env :: os_event list \<times> (error + 'cb VJoyInterface)) = (tr, Inl e)"
  by (simp add: import_module_def)

text \<open>
  When a candidate is found, the class body loads exactly that path and keeps it in
  \<^verbatim>\<open>dll_path\<close>; the events are those of the search followed by the one load.
\<close>

lemma class_body_found:
  "locate_dll env = (tr, Inr path) \<Longrightarrow>
   (class_body env :: os_event list \<times> (error + 'cb VJoyInterface)) =
     (tr @ [LoadLibrary path],
      case load_library env path of
        Inl e \<Rightarrow> Inl e
      | Inr exports \<Rightarrow>
          Inr \<lparr>dll_path = path, vjoy_dll = exports, ffb_callback_fn = CNone,
               bound = Map.empty, symbol_lookups = [], native_calls = []\<rparr>)"
  by (simp add: class_body_def)

lemma bind_all_dll_path: "dll_path (fst (bind_all tbl cls)) = dll_path cls"
  by (induction tbl cls rule: bind_all.induct) (simp_all add: dll_getattr_def Let_def)

text \<open>
  A successful import went through a successful class body: same events, and the class
  is the one the class body made, with the functions bound.
\<close>

lemma import_module_success:
  assumes "(import_module env :: os_event list \<times> (error + 'cb VJoyInterface)) = (tr, Inr cls)"
  shows "\<exists>cls0. (class_body env :: os_event list \<times> (error + 'cb VJoyInterface)) = (tr, Inr cls0)
               \<and> dll_path cls = dll_path cls0 \<and> vjoy_dll cls = vjoy_dll cls0"
proof (cases "class_body env :: os_event list \<times> (error + 'cb VJoyInterface)")
  case (Pair tr0 r)
  show ?thesis
  proof (cases r)
    case (Inl e)
    then show ?thesis
      using assms Pair by (simp add: import_module_def)
  next
    case (Inr cls0)
    obtain c err where i: "initialize cls0 = (c, err)"
      by (cases "initialize cls0")
    have "tr0 = tr \<and> err = None \<and> c = cls"
      using assms Pair Inr i by (cases err) (simp_all add: import_module_def)
    moreover have "dll_path c = dll_path cls0" "vjoy_dll c = vjoy_dll cls0"
      using i bind_all_dll_path [of api_functions cls0] bind_all_vjoy_dll [of api_functions cls0]
      by (simp_all add: initialize_def)
    ultimately show ?thesis
      using Pair Inr by simp
  qed
qed

text \<open>
  C5. Discovery probes two candidate paths and no other, in this order: the relative
  name \<^verbatim>\<open>vJoyInterface.dll\<close> (a file in the working directory), then the file of that
  name in the directory of the module. The first that exists is chosen, so the
  working-directory file wins when both exist, and the second is then not even probed.
  The class body loads the chosen path, and no other, and keeps it as \<^verbatim>\<open>dll_path\<close>;
  an import that succeeds has made exactly these probes and this load. When neither
  exists the class body raises \<open>GremlinError\<close>: the import fails and no library is
  loaded.
\<close>

theorem locate_dll_order:
  fixes env :: os_env
  shows "dev_path env = os_path_join env (os_path_dirname env (module_file env)) ''vJoyInterface.dll''
   \<and> (os_path_isfile env ''vJoyInterface.dll'' \<longrightarrow>
        locate_dll env = ([IsFile ''vJoyInterface.dll''], Inr ''vJoyInterface.dll'')
        \<and> (class_body env :: os_event list \<times> (error + 'cb VJoyInterface)) =
            ([IsFile ''vJoyInterface.dll'', LoadLibrary ''vJoyInterface.dll''],
             case load_library env ''vJoyInterface.dll'' of
               Inl e \<Rightarrow> Inl e
             | Inr exports \<Rightarrow>
                 Inr \<lparr>dll_path = ''vJoyInterface.dll'', vjoy_dll = exports,
                      ffb_callback_fn = CNone, bound = Map.empty, symbol_lookups = [],
                      native_calls = []\<rparr>))
   \<and> (\<not> os_path_isfile env ''vJoyInterface.dll'' \<and> os_path_isfile env (dev_path env) \<longrightarrow>
        locate_dll env = ([IsFile ''vJoyInterface.dll'', IsFile (dev_path env)], Inr (dev_path env))
        \<and> (class_body env :: os_event list \<times> (error + 'cb VJoyInterface)) =
            ([IsFile ''vJoyInterface.dll'', IsFile (dev_path env), LoadLibrary (dev_path env)],
             case load_library env (dev_path env) of
               Inl e \<Rightarrow> Inl e
             | Inr exports \<Rightarrow>
                 Inr \<lparr>dll_path = dev_path env, vjoy_dll = exports,
                      ffb_callback_fn = CNone, bound = Map.empty, symbol_lookups = [],
                      native_calls = []\<rparr>))
   \<and> (\<not> os_path_isfile env ''vJoyInterface.dll'' \<and> \<not> os_path_isfile env (dev_path env) \<longrightarrow>
        locate_dll env = ([IsFile ''vJoyInterface.dll'', IsFile (dev_path env)],
                          Inl (GremlinError ''Unable to locate vjoy dll''))
        \<and> (class_body env :: os_event list \<times> (error + 'cb VJoyInterface)) =
            ([IsFile ''vJoyInterface.dll'', IsFile (dev_path env)],
             Inl (GremlinError ''Unable to locate vjoy dll''))
        \<and> (import_module env :: os_event list \<times> (error + 'cb VJoyInterface)) =
            ([IsFile ''vJoyInterface.dll'', IsFile (dev_path env)],
             Inl (GremlinError ''Unable to locate vjoy dll'')))
   \<and> (\<forall>path. snd (locate_dll env) = Inr path \<longrightarrow>
        os_path_isfile env path \<and> (path = ''vJoyInterface.dll'' \<or> path = dev_path env))
   \<and> (\<forall>tr cls. (import_module env :: os_event list \<times> (error + 'cb VJoyInterface)) = (tr, Inr cls) \<longrightarrow>
        (os_path_isfile env ''vJoyInterface.dll'' \<longrightarrow>
           tr = [IsFile ''vJoyInterface.dll'', LoadLibrary ''vJoyInterface.dll'']
           \<and> dll_path cls = ''vJoyInterface.dll''
           \<and> load_library env ''vJoyInterface.dll'' = Inr (vjoy_dll cls))
        \<and> (\<not> os_path_isfile env ''vJoyInterface.dll'' \<longrightarrow>
           os_path_isfile env (dev_path env)
           \<and> tr = [IsFile ''vJoyInterface.dll'', IsFile (dev_path env), LoadLibrary (dev_path env)]
           \<and> dll_path cls = dev_path env
           \<and> load_library env (dev_path env) = Inr (vjoy_dll cls)))"
proof -
  let ?cwd = "''vJoyInterface.dll''"
  let ?new = "\<lambda>path exports. \<lparr>dll_path = path, vjoy_dll = exports,
                      ffb_callback_fn = (CNone :: 'cb cobj), bound = Map.empty,
                      symbol_lookups = [], native_calls = []\<rparr>"
  have first: "locate_dll env = ([IsFile ?cwd], Inr ?cwd)
        \<and> (class_body env :: os_event list \<times> (error + 'cb VJoyInterface)) =
            ([IsFile ?cwd, LoadLibrary ?cwd],
             case load_library env ?cwd of Inl e \<Rightarrow> Inl e | Inr exports \<Rightarrow> Inr (?new ?cwd exports))"
    if "os_path_isfile env ?cwd"
  proof -
    have l: "locate_dll env = ([IsFile ?cwd], Inr ?cwd)"
      using that by (simp add: locate_dll_def)
    show ?thesis
      using l class_body_found [OF l, where 'cb = 'cb] by simp
  qed
  have second: "locate_dll env = ([IsFile ?cwd, IsFile (dev_path env)], Inr (dev_path env))
        \<and> (class_body env :: os_event list \<times> (error + 'cb VJoyInterface)) =
            ([IsFile ?cwd, IsFile (dev_path env), LoadLibrary (dev_path env)],
             case load_library env (dev_path env) of
               Inl e \<Rightarrow> Inl e | Inr exports \<Rightarrow> Inr (?new (dev_path env) exports))"
    if "\<not> os_path_isfile env ?cwd" "os_path_isfile env (dev_path env)"
  proof -
    have l: "locate_dll env = ([IsFile ?cwd, IsFile (dev_path env)], Inr (dev_path env))"
      using that by (simp add: locate_dll_def)
    show ?thesis
      using l class_body_found [OF l, where 'cb = 'cb] by simp
  qed
  have not_found:
    "locate_dll env = ([IsFile ?cwd, IsFile (dev_path env)],
                       Inl (GremlinError ''Unable to locate vjoy dll''))
     \<and> (class_body env :: os_event list \<times> (error + 'cb VJoyInterface)) =
       ([IsFile ?cwd, IsFile (dev_path env)], Inl (GremlinError ''Unable to locate vjoy dll''))
     \<and> (import_module env :: os_event list \<times> (error + 'cb VJoyInterface)) =
       ([IsFile ?cwd, IsFile (dev_path env)], Inl (GremlinError ''Unable to locate vjoy dll''))"
    if "\<not> os_path_isfile env ?cwd" "\<not> os_path_isfile env (dev_path env)"
  proof -
    have l: "locate_dll env = ([IsFile ?cwd, IsFile (dev_path env)],
                               Inl (GremlinError ''Unable to locate vjoy dll''))"
      using that by (simp add: locate_dll_def)
    then have c: "(class_body env :: os_event list \<times> (error + 'cb VJoyInterface)) =
        ([IsFile ?cwd, IsFile (dev_path env)], Inl (GremlinError ''Unable to locate vjoy dll''))"
      using class_body_not_found [of env "GremlinError ''Unable to locate vjoy dll''"] by simp
    from l c import_module_class_body_error [OF c] show ?thesis by simp
  qed
  have dev: "dev_path env = os_path_join env (os_path_dirname env (module_file env)) ?cwd"
    by (simp add: dev_path_def)
  have chosen: "\<forall>path. snd (locate_dll env) = Inr path \<longrightarrow>
        os_path_isfile env path \<and> (path = ?cwd \<or> path = dev_path env)"
    by (auto simp: locate_dll_def split: if_splits)
  have imported: "(os_path_isfile env ?cwd \<longrightarrow>
           tr = [IsFile ?cwd, LoadLibrary ?cwd]
           \<and> dll_path cls = ?cwd
           \<and> load_library env ?cwd = Inr (vjoy_dll cls))
        \<and> (\<not> os_path_isfile env ?cwd \<longrightarrow>
           os_path_isfile env (dev_path env)
           \<and> tr = [IsFile ?cwd, IsFile (dev_path env), LoadLibrary (dev_path env)]
           \<and> dll_path cls = dev_path env
           \<and> load_library env (dev_path env) = Inr (vjoy_dll cls))"
    if imp: "(import_module env :: os_event list \<times> (error + 'cb VJoyInterface)) = (tr, Inr cls)"
    for tr and cls :: "'cb VJoyInterface"
  proof -
    obtain cls0 :: "'cb VJoyInterface" where
      c0: "class_body env = (tr, Inr cls0)" "dll_path cls = dll_path cls0"
          "vjoy_dll cls = vjoy_dll cls0"
      using import_module_success [OF imp] by blast
    show ?thesis
    proof (cases "os_path_isfile env ?cwd")
      case True
      then show ?thesis
        using first [OF True] c0 by (auto split: sum.splits)
    next
      case False
      show ?thesis
      proof (cases "os_path_isfile env (dev_path env)")
        case True
        then show ?thesis
          using second [OF False True] False c0 by (auto split: sum.splits)
      next
        case nodev: False
        then show ?thesis
          using not_found [OF False nodev] c0 by simp
      qed
    qed
  qed
  show ?thesis
    using dev first second not_found chosen imported by blast
qed

text \<open>
  Three file systems: both files exist, only the one beside the module exists, neither
  exists. In the first two the library exports every symbol of the table.
\<close>

theorem locate_dll_order_witness:
  "os_path_isfile env_both ''vJoyInterface.dll''
   \<and> locate_dll env_both = ([IsFile ''vJoyInterface.dll''], Inr ''vJoyInterface.dll'')
   \<and> class_body env_both =
        ([IsFile ''vJoyInterface.dll'', LoadLibrary ''vJoyInterface.dll''], Inr cls_example)
   \<and> import_module env_both =
        ([IsFile ''vJoyInterface.dll'', LoadLibrary ''vJoyInterface.dll''],
         Inr (fst (initialize cls_example)))
   \<and> dll_path (fst (initialize cls_example)) = ''vJoyInterface.dll''
   \<and> \<not> os_path_isfile env_dev_only ''vJoyInterface.dll''
   \<and> os_path_isfile env_dev_only (dev_path env_dev_only)
   \<and> locate_dll env_dev_only =
        ([IsFile ''vJoyInterface.dll'', IsFile ''C:/gremlin/vjoy/vJoyInterface.dll''],
         Inr ''C:/gremlin/vjoy/vJoyInterface.dll'')
   \<and> class_body env_dev_only =
        ([IsFile ''vJoyInterface.dll'', IsFile ''C:/gremlin/vjoy/vJoyInterface.dll'',
          LoadLibrary ''C:/gremlin/vjoy/vJoyInterface.dll''],
         Inr (cls_example\<lparr>dll_path := ''C:/gremlin/vjoy/vJoyInterface.dll''\<rparr>))
   \<and> \<not> os_path_isfile env_neither ''vJoyInterface.dll''
   \<and> \<not> os_path_isfile env_neither (dev_path env_neither)
   \<and> (import_module env_neither :: os_event list \<times> (error + unit VJoyInterface)) =
        ([IsFile ''vJoyInterface.dll'', IsFile ''C:/gremlin/vjoy/vJoyInterface.dll''],
         Inl (GremlinError ''Unable to locate vjoy dll''))"
proof -
  have d: "dev_path env_both = ''C:/gremlin/vjoy/vJoyInterface.dll''"
          "dev_path env_dev_only = ''C:/gremlin/vjoy/vJoyInterface.dll''"
          "dev_path env_neither = ''C:/gremlin/vjoy/vJoyInterface.dll''"
    by (simp_all add: dev_path_def env_both_def env_dev_only_def env_neither_def)
  have b: "os_path_isfile env_both ''vJoyInterface.dll''"
    by (simp add: env_both_def)
  have o: "\<not> os_path_isfile env_dev_only ''vJoyInterface.dll''
           \<and> os_path_isfile env_dev_only (dev_path env_dev_only)"
    by (simp add: d) (simp add: env_dev_only_def env_both_def)
  have n: "\<not> os_path_isfile env_neither ''vJoyInterface.dll''
           \<and> \<not> os_path_isfile env_neither (dev_path env_neither)"
    by (simp add: env_neither_def)
  have lb: "load_library env_both ''vJoyInterface.dll'' = Inr (set (map fst api_functions))"
    by (simp add: env_both_def)
  have lo: "load_library env_dev_only (dev_path env_dev_only) = Inr (set (map fst api_functions))"
    by (simp add: env_dev_only_def env_both_def)
  have t1: "locate_dll env_both = ([IsFile ''vJoyInterface.dll''], Inr ''vJoyInterface.dll'')"
    using b locate_dll_order [of env_both] by blast
  have "class_body env_both =
        ([IsFile ''vJoyInterface.dll'', LoadLibrary ''vJoyInterface.dll''],
         case load_library env_both ''vJoyInterface.dll'' of
           Inl e \<Rightarrow> Inl e
         | Inr exports \<Rightarrow>
             Inr \<lparr>dll_path = ''vJoyInterface.dll'', vjoy_dll = exports,
                  ffb_callback_fn = (CNone :: nat cobj), bound = Map.empty,
                  symbol_lookups = [], native_calls = []\<rparr>)"
    using b locate_dll_order [of env_both, where 'cb = nat] by blast
  then have c1: "class_body env_both =
        ([IsFile ''vJoyInterface.dll'', LoadLibrary ''vJoyInterface.dll''], Inr cls_example)"
    by (simp add: lb cls_example_def)
  have "find (\<lambda>n. n \<notin> vjoy_dll cls_example) (map fst api_functions) = None"
    by (simp add: find_None_iff cls_example_def)
  then have ok: "snd (initialize cls_example) = None"
    by (simp add: initialize_def bind_all_error)
  have i1: "import_module env_both =
        ([IsFile ''vJoyInterface.dll'', LoadLibrary ''vJoyInterface.dll''],
         Inr (fst (initialize cls_example)))"
    using ok by (cases "initialize cls_example") (simp add: import_module_def c1)
  have p1: "dll_path (fst (initialize cls_example)) = ''vJoyInterface.dll''"
    using b i1 locate_dll_order [of env_both, where 'cb = nat] by blast
  have t2: "locate_dll env_dev_only =
        ([IsFile ''vJoyInterface.dll'', IsFile (dev_path env_dev_only)],
         Inr (dev_path env_dev_only))"
    using o locate_dll_order [of env_dev_only] by blast
  have "class_body env_dev_only =
        ([IsFile ''vJoyInterface.dll'', IsFile (dev_path env_dev_only),
          LoadLibrary (dev_path env_dev_only)],
         case load_library env_dev_only (dev_path env_dev_only) of
           Inl e \<Rightarrow> Inl e
         | Inr exports \<Rightarrow>
             Inr \<lparr>dll_path = dev_path env_dev_only, vjoy_dll = exports,
                  ffb_callback_fn = (CNone :: nat cobj), bound = Map.empty,
                  symbol_lookups = [], native_calls = []\<rparr>)"
    using o locate_dll_order [of env_dev_only, where 'cb = nat] by blast
  then have c2: "class_body env_dev_only =
        ([IsFile ''vJoyInterface.dll'', IsFile (dev_path env_dev_only),
          LoadLibrary (dev_path env_dev_only)],
         Inr (cls_example\<lparr>dll_path := dev_path env_dev_only\<rparr>))"
    by (simp add: lo cls_example_def)
  have t3: "(import_module env_neither :: os_event list \<times> (error + unit VJoyInterface)) =
        ([IsFile ''vJoyInterface.dll'', IsFile (dev_path env_neither)],
         Inl (GremlinError ''Unable to locate vjoy dll''))"
    using n locate_dll_order [of env_neither, where 'cb = unit] by blast
  show ?thesis
    using b o n t1 c1 i1 p1 t2 c2 t3 unfolding d by blast
qed

subsection \<open>The FFB data envelope\<close>

text \<open>
  C7. \<^verbatim>\<open>_FFB_DATA\<close> has exactly three fields, in the order \<^verbatim>\<open>size\<close>, \<^verbatim>\<open>cmd\<close>,
  \<^verbatim>\<open>data\<close>: the first two are C \<open>unsigned long\<close> (so of one width, whatever the
  platform), the third is a character pointer, and field for field these are the
  types of the native record.
\<close>

theorem FFB_DATA_layout:
  "length FFB_DATA_fields = 3
   \<and> map fst FFB_DATA_fields = [''size'', ''cmd'', ''data'']
   \<and> map snd FFB_DATA_fields = [c_ulong, c_ulong, c_char_p]
   \<and> map (ctype_native \<circ> snd) FFB_DATA_fields = map snd native_FFB_DATA
   \<and> map (ctype_native \<circ> snd) FFB_DATA_fields = [N_unsigned_long, N_unsigned_long, N_char_ptr]
   \<and> map (native_size dm \<circ> ctype_native \<circ> snd) FFB_DATA_fields =
        [long_bytes dm, long_bytes dm, pointer_bytes dm]
   \<and> map (is_pointer \<circ> ctype_native \<circ> snd) FFB_DATA_fields = [False, False, True]"
  by (simp add: FFB_DATA_fields_def native_FFB_DATA_def)

subsection \<open>The callback slot\<close>

lemma set_ffb_event_callback_slot:
  "ffb_callback_fn (fst (set_ffb_event_callback callback vjoy_id cls)) = CFuncPtr callback"
  by (simp add: set_ffb_event_callback_def dll_getattr_def Let_def)

lemma set_ffb_event_callback_vjoy_dll:
  "vjoy_dll (fst (set_ffb_event_callback callback vjoy_id cls)) = vjoy_dll cls"
  by (simp add: set_ffb_event_callback_def dll_getattr_def Let_def)

lemma set_ffb_event_callback_registered:
  "''FfbRegisterGenCB'' \<in> vjoy_dll cls \<Longrightarrow>
   set_ffb_event_callback callback vjoy_id cls =
     (cls\<lparr>ffb_callback_fn := CFuncPtr callback,
          native_calls := native_calls cls @
            [(''FfbRegisterGenCB'', [CFuncPtr callback, ByRef (c_uint_obj vjoy_id)])]\<rparr>,
      None)"
  by (simp add: set_ffb_event_callback_def dll_getattr_def Let_def new_dll_fn_def)

lemma register_all_vjoy_dll: "vjoy_dll (register_all calls cls) = vjoy_dll cls"
  by (induction calls cls rule: register_all.induct)
     (simp_all add: set_ffb_event_callback_vjoy_dll)

lemma register_all_snoc:
  "register_all (calls @ [(callback, vjoy_id)]) cls =
     fst (set_ffb_event_callback callback vjoy_id (register_all calls cls))"
  by (induction calls cls rule: register_all.induct) simp_all

lemma register_all_slot:
  "calls \<noteq> [] \<Longrightarrow> ffb_callback_fn (register_all calls cls) = CFuncPtr (fst (last calls))"
proof (induction calls rule: rev_induct)
  case Nil
  then show ?case by simp
next
  case (snoc c calls)
  obtain callback vjoy_id where c: "c = (callback, vjoy_id)" by (cases c)
  show ?case
    by (simp add: c register_all_snoc set_ffb_event_callback_slot)
qed

lemma register_all_native_calls:
  "''FfbRegisterGenCB'' \<in> vjoy_dll cls \<Longrightarrow>
   native_calls (register_all calls cls) =
     native_calls cls @
     map (\<lambda>(callback, vjoy_id).
            (''FfbRegisterGenCB'', [CFuncPtr callback, ByRef (c_uint_obj vjoy_id)])) calls"
proof (induction calls rule: rev_induct)
  case Nil
  then show ?case by simp
next
  case (snoc c calls)
  obtain callback vjoy_id where c: "c = (callback, vjoy_id)" by (cases c)
  have "''FfbRegisterGenCB'' \<in> vjoy_dll (register_all calls cls)"
    using snoc.prems by (simp add: register_all_vjoy_dll)
  then show ?case
    using snoc by (simp add: c register_all_snoc set_ffb_event_callback_registered)
qed

text \<open>
  Apart from the log of native calls, the class after a sequence of registrations is
  the class after the last of them alone: nothing of an earlier handler is kept.
\<close>

lemma set_ffb_event_callback_forgets:
  "(fst (set_ffb_event_callback callback vjoy_id
           (fst (set_ffb_event_callback callback0 vjoy_id0 cls))))\<lparr>native_calls := []\<rparr>
   = (fst (set_ffb_event_callback callback vjoy_id cls))\<lparr>native_calls := []\<rparr>"
  by (simp add: set_ffb_event_callback_def dll_getattr_def Let_def)

lemma register_all_forgets:
  "(register_all (calls @ [(callback, vjoy_id)]) cls)\<lparr>native_calls := []\<rparr>
   = (fst (set_ffb_event_callback callback vjoy_id cls))\<lparr>native_calls := []\<rparr>"
proof (induction calls arbitrary: cls)
  case Nil
  then show ?case by simp
next
  case (Cons c calls)
  obtain callback0 vjoy_id0 where c: "c = (callback0, vjoy_id0)" by (cases c)
  show ?case
    by (simp add: c Cons.IH set_ffb_event_callback_forgets)
qed

text \<open>
  C6. The class has one callback slot. Each registration stores the new trampoline
  in it, so after a non-empty sequence of registrations the slot holds the trampoline
  of the most recent handler and, the log of native calls apart, the class is as if
  only that registration had been made; a second registration replaces the first.
  Each registration calls \<^verbatim>\<open>FfbRegisterGenCB\<close> with the trampoline and a reference to a
  \<^verbatim>\<open>c_uint\<close> holding the device id (modulo \<open>2^32\<close>).
\<close>

theorem ffb_callback_single_slot:
  fixes cls :: "'cb VJoyInterface"
  shows "ffb_callback_fn (fst (set_ffb_event_callback callback vjoy_id cls)) = CFuncPtr callback
   \<and> ffb_callback_fn (register_all [(callback1, id1), (callback2, id2)] cls) = CFuncPtr callback2
   \<and> (calls \<noteq> [] \<longrightarrow>
        ffb_callback_fn (register_all calls cls) = CFuncPtr (fst (last calls)))
   \<and> (register_all (calls @ [(callback, vjoy_id)]) cls)\<lparr>native_calls := []\<rparr>
        = (fst (set_ffb_event_callback callback vjoy_id cls))\<lparr>native_calls := []\<rparr>
   \<and> (''FfbRegisterGenCB'' \<in> vjoy_dll cls \<longrightarrow>
        set_ffb_event_callback callback vjoy_id cls =
          (cls\<lparr>ffb_callback_fn := CFuncPtr callback,
               native_calls := native_calls cls @
                 [(''FfbRegisterGenCB'', [CFuncPtr callback, ByRef (c_uint_obj vjoy_id)])]\<rparr>,
           None)
        \<and> native_calls (register_all calls cls) =
            native_calls cls @
            map (\<lambda>(callback, vjoy_id).
                   (''FfbRegisterGenCB'', [CFuncPtr callback, ByRef (c_uint_obj vjoy_id)])) calls)
   \<and> (c_uint_obj vjoy_id :: 'cb cobj) = C_uint (word_of_int vjoy_id)
   \<and> uint (word_of_int vjoy_id :: 32 word) = vjoy_id mod 2 ^ 32"
proof -
  have two: "ffb_callback_fn (register_all [(callback1, id1), (callback2, id2)] cls)
             = CFuncPtr callback2"
    using register_all_slot [of "[(callback1, id1), (callback2, id2)]" cls] by simp
  have w: "uint (word_of_int vjoy_id :: 32 word) = vjoy_id mod 2 ^ 32"
    by (simp add: uint_word_of_int take_bit_eq_mod)
  show ?thesis
    using two w set_ffb_event_callback_slot [of callback vjoy_id cls]
      register_all_slot [of calls cls] register_all_forgets [of calls callback vjoy_id cls]
      set_ffb_event_callback_registered [of cls callback vjoy_id]
      register_all_native_calls [of cls calls]
    by (simp add: c_uint_obj_def)
qed

theorem ffb_callback_single_slot_witness:
  "[(1::nat, 1::int), (2, 1)] \<noteq> []
   \<and> ''FfbRegisterGenCB'' \<in> vjoy_dll cls_example
   \<and> ffb_callback_fn (register_all [(1, 1), (2, 1)] cls_example) = CFuncPtr 2
   \<and> native_calls (register_all [(1, 1), (2, 1)] cls_example) =
        [(''FfbRegisterGenCB'', [CFuncPtr 1, ByRef (C_uint 1)]),
         (''FfbRegisterGenCB'', [CFuncPtr 2, ByRef (C_uint 1)])]"
proof -
  have sym: "''FfbRegisterGenCB'' \<in> vjoy_dll cls_example"
    by (simp add: cls_example_def api_functions_def)
  have start: "native_calls cls_example = []"
    by (simp add: cls_example_def)
  have ne: "[(1::nat, 1::int), (2, 1)] \<noteq> []"
    by simp
  show ?thesis
    using sym ne start
      ffb_callback_single_slot [of 2 1 cls_example 1 1 2 1 "[(1, 1), (2, 1)]"]
    by (simp add: c_uint_obj_def)
qed


end
